theory Spec2Isabelle
  imports Main "HOL-Library.Sublist"
begin

section \<open>Values of the program\<close>

text \<open>
  The handlers of \<^verbatim>\<open>app.py\<close> work on JSON-shaped Python values: the alert history is
  whatever \<^verbatim>\<open>json.load\<close> returned or a list of dictionaries built by the handlers, and the
  power table stores the values of the request body as they are. A dictionary is an
  association list in insertion order, its keys distinct. Floating-point numbers do not
  occur in any value the handlers build and are left out. A string is the list of its
  UTF-8 bytes; the substrings the code looks for are ASCII, and an ASCII text occurs in the
  characters of a string exactly when it occurs in its bytes.
\<close>

datatype json =
    JNull
  | JBool bool
  | JInt int
  | JStr string
  | JArr "json list"
  | JObj "(string \<times> json) list"

datatype error = BadRequest | AttributeError | TypeError

text \<open>Python's truth value of an object, as tested by \<^verbatim>\<open>if\<close>, \<^verbatim>\<open>and\<close> and \<^verbatim>\<open>not\<close>.\<close>

fun truthy :: "json \<Rightarrow> bool" where
  "truthy JNull = False"
| "truthy (JBool b) = b"
| "truthy (JInt i) = (i \<noteq> 0)"
| "truthy (JStr s) = (s \<noteq> [])"
| "truthy (JArr xs) = (xs \<noteq> [])"
| "truthy (JObj kvs) = (kvs \<noteq> [])"

text \<open>\<^verbatim>\<open>len(x)\<close>: defined on strings, lists and dictionaries, a TypeError elsewhere.\<close>

fun py_len :: "json \<Rightarrow> error + nat" where
  "py_len (JStr s) = Inr (length s)"
| "py_len (JArr xs) = Inr (length xs)"
| "py_len (JObj kvs) = Inr (length kvs)"
| "py_len _ = Inl TypeError"

text \<open>\<^verbatim>\<open>x.append(a)\<close>: only a list has the method.\<close>

fun py_append :: "json \<Rightarrow> json \<Rightarrow> error + json" where
  "py_append (JArr xs) a = Inr (JArr (xs @ [a]))"
| "py_append _ a = Inl AttributeError"

text \<open>\<^verbatim>\<open>x.get(k)\<close>: only a dictionary has the method; a missing key gives None.\<close>

fun py_get :: "json \<Rightarrow> string \<Rightarrow> error + json" where
  "py_get (JObj kvs) k = Inr (case map_of kvs k of None \<Rightarrow> JNull | Some v \<Rightarrow> v)"
| "py_get _ k = Inl AttributeError"

text \<open>\<^verbatim>\<open>a[k]\<close> on a dictionary, None standing for the KeyError.\<close>

fun py_item :: "json \<Rightarrow> string \<Rightarrow> json option" where
  "py_item (JObj kvs) k = map_of kvs k"
| "py_item _ k = None"

text \<open>\<^verbatim>\<open>sub in s\<close> on strings: \<^verbatim>\<open>sub\<close> occurs in \<^verbatim>\<open>s\<close> as a contiguous block.\<close>

fun str_in :: "string \<Rightarrow> string \<Rightarrow> bool" where
  "str_in sub [] = (sub = [])"
| "str_in sub (c # cs) = (prefix sub (c # cs) \<or> str_in sub cs)"

subsection \<open>Clock readings\<close>

record datetime =
  year :: nat
  month :: nat
  day :: nat
  hour :: nat
  minute :: nat
  second :: nat

definition digit :: "nat \<Rightarrow> char" where
  "digit n = char_of (48 + n mod 10)"

definition pad2 :: "nat \<Rightarrow> string" where
  "pad2 n = [digit (n div 10), digit n]"

definition pad4 :: "nat \<Rightarrow> string" where
  "pad4 n = [digit (n div 1000), digit (n div 100), digit (n div 10), digit n]"

text \<open>\<^verbatim>\<open>strftime("%Y-%m-%d %H:%M:%S")\<close>\<close>

definition strftime_stamp :: "datetime \<Rightarrow> string" where
  "strftime_stamp t =
     pad4 (year t) @ ''-'' @ pad2 (month t) @ ''-'' @ pad2 (day t) @ '' '' @
     pad2 (hour t) @ '':'' @ pad2 (minute t) @ '':'' @ pad2 (second t)"

text \<open>\<^verbatim>\<open>strftime("%Y%m%d_%H%M%S")\<close>\<close>

definition strftime_fname :: "datetime \<Rightarrow> string" where
  "strftime_fname t =
     pad4 (year t) @ pad2 (month t) @ pad2 (day t) @ ''_'' @
     pad2 (hour t) @ pad2 (minute t) @ pad2 (second t)"

section \<open>State of the server\<close>

record power_entry =
  main :: json
  backup :: json
  last_update :: datetime

text \<open>
  The module globals \<^verbatim>\<open>alerts\<close> and \<^verbatim>\<open>power_status\<close> together with the durable storage
  the handlers touch: the file \<^verbatim>\<open>alerts_history.json\<close> and the file \<^verbatim>\<open>messages.txt\<close>
  (None when the file does not exist) and the directory \<^verbatim>\<open>received_images\<close>.
\<close>

record state =
  alerts :: json
  power_status :: "string \<rightharpoonup> power_entry"
  alerts_file :: "string option"
  msg_file :: "string option"
  images :: "string \<rightharpoonup> string"

text \<open>
  What a handler reads of the Flask request (\<open>req_method\<close> is \<^verbatim>\<open>request.method\<close>).
  \<^verbatim>\<open>json_body\<close> is \<^verbatim>\<open>request.json\<close>, None when
  Flask rejects the body (no JSON content type, or text that does not parse).
\<close>

record request =
  req_method :: string
  content_type :: "string option"
  data :: string
  args :: "string \<rightharpoonup> string"
  form :: "string \<rightharpoonup> string"
  json_body :: "json option"

text \<open>
  The body of a response: a plain text, the JSON given to \<^verbatim>\<open>jsonify\<close>, the JSON of
  \<^verbatim>\<open>{"status": "success", "power_status": entry}\<close> (\<open>PowerJson entry\<close>), or a rendered template.
\<close>

datatype body =
    Text string
  | Json json
  | PowerJson power_entry
  | Template string

record response =
  status :: nat
  body :: body

definition jsonify :: "json \<Rightarrow> nat \<Rightarrow> response" where
  "jsonify j code = \<lparr>status = code, body = Json j\<rparr>"

definition not_found :: response where
  "not_found = jsonify (JObj [(''error'', JStr ''Device not found'')]) 404"

section \<open>Alert history on disk\<close>

text \<open>
  \<^verbatim>\<open>json.dump\<close> and \<^verbatim>\<open>json.load\<close> belong to the Python library, not to this program: the
  two functions below take them as the parameters \<open>dumps\<close> (the text written for a value)
  and \<open>loads\<close> (the value read from a text, None when reading raises).
\<close>

definition load_alerts_from_file :: "(string \<Rightarrow> json option) \<Rightarrow> state \<Rightarrow> json \<times> state" where
  "load_alerts_from_file loads st =
     (case alerts_file st of
        None \<Rightarrow> (alerts st, st)
      | Some txt \<Rightarrow>
          (case loads txt of
             Some v \<Rightarrow> (v, st\<lparr>alerts := v\<rparr>)
           | None \<Rightarrow> (JArr [], st\<lparr>alerts := JArr []\<rparr>)))"

definition save_alerts_to_file :: "(json \<Rightarrow> string) \<Rightarrow> state \<Rightarrow> state" where
  "save_alerts_to_file dumps st = st\<lparr>alerts_file := Some (dumps (alerts st))\<rparr>"

text \<open>
  Module initialisation: the globals of lines 19 to 24 over the storage found on disk,
  then the call of \<^verbatim>\<open>load_alerts_from_file\<close> of line 43.
\<close>

definition module_globals :: "datetime \<Rightarrow> string option \<Rightarrow> string option \<Rightarrow> (string \<rightharpoonup> string) \<Rightarrow> state" where
  "module_globals now afile mfile imgs =
     \<lparr>alerts = JArr [],
      power_status = [''DEV001'' \<mapsto> \<lparr>main = JBool True, backup = JBool True, last_update = now\<rparr>],
      alerts_file = afile, msg_file = mfile, images = imgs\<rparr>"

definition startup :: "(string \<Rightarrow> json option) \<Rightarrow> datetime \<Rightarrow> string option \<Rightarrow> string option \<Rightarrow> (string \<rightharpoonup> string) \<Rightarrow> state" where
  "startup loads now afile mfile imgs =
     snd (load_alerts_from_file loads (module_globals now afile mfile imgs))"

section \<open>Power supply status\<close>

text \<open>Lines 74 to 86 of \<^verbatim>\<open>get_power_status\<close>: the pair \<^verbatim>\<open>(state, state_class)\<close>.\<close>

definition power_state :: "json \<Rightarrow> json \<Rightarrow> string \<times> string" where
  "power_state m b =
     (if truthy m \<and> truthy b then (''Normal - Both supplies active'', ''success'')
      else if \<not> truthy m \<and> truthy b then (''Running on BACKUP power'', ''warning'')
      else if truthy m \<and> \<not> truthy b then (''Main supply active, backup offline'', ''info'')
      else (''No Power Available - CRITICAL'', ''danger''))"

definition get_power_status :: "string \<Rightarrow> state \<Rightarrow> response" where
  "get_power_status device_id st =
     (case power_status st device_id of
        None \<Rightarrow> not_found
      | Some entry \<Rightarrow>
          jsonify (JObj
            [(''device_id'', JStr device_id),
             (''main_supply'', JStr (if truthy (main entry) then ''ON'' else ''OFF'')),
             (''backup_supply'', JStr (if truthy (backup entry) then ''ON'' else ''OFF'')),
             (''state'', JStr (fst (power_state (main entry) (backup entry)))),
             (''state_class'', JStr (snd (power_state (main entry) (backup entry)))),
             (''last_update'', JStr (strftime_stamp (last_update entry)))]) 200)"

text \<open>
  \<^verbatim>\<open>device_id not in power_status\<close>: the keys of the table are strings, so only a string
  can be a key; a list or a dictionary is unhashable and the test raises TypeError.
\<close>

fun registered :: "(string \<rightharpoonup> power_entry) \<Rightarrow> json \<Rightarrow> error + string option" where
  "registered tbl (JStr d) = Inr (if tbl d = None then None else Some d)"
| "registered tbl (JArr xs) = Inl TypeError"
| "registered tbl (JObj kvs) = Inl TypeError"
| "registered tbl _ = Inr None"

definition update_power_status :: "datetime \<Rightarrow> request \<Rightarrow> state \<Rightarrow> (error + response) \<times> state" where
  "update_power_status now req st =
     (case json_body req of
        None \<Rightarrow> (Inl BadRequest, st)
      | Some j \<Rightarrow>
          (case (py_get j ''device_id'', py_get j ''main_supply'', py_get j ''backup_supply'') of
             (Inr device_id, Inr main_supply, Inr backup_supply) \<Rightarrow>
               (case registered (power_status st) device_id of
                  Inl e \<Rightarrow> (Inl e, st)
                | Inr None \<Rightarrow> (Inr not_found, st)
                | Inr (Some d) \<Rightarrow>
                    (Inr (jsonify (JObj [(''status'', JStr ''success'')]) 200),
                     st\<lparr>power_status := (power_status st)
                          (d \<mapsto> \<lparr>main = main_supply, backup = backup_supply, last_update = now\<rparr>)\<rparr>))
           | _ \<Rightarrow> (Inl AttributeError, st)))"

section \<open>Appending an alert\<close>

text \<open>
  The dictionary literal of an alert, its keys in the order of the source (lines 143 to 150,
  154 to 161, 183 to 190 and 213 to 220).
\<close>

definition alert_dict :: "int \<Rightarrow> json \<Rightarrow> string \<Rightarrow> string \<Rightarrow> string \<Rightarrow> string \<Rightarrow> json" where
  "alert_dict n device_id alert_type message timestamp img =
     JObj [(''id'', JInt n),
           (''device_id'', device_id),
           (''alert_type'', JStr alert_type),
           (''message'', JStr message),
           (''timestamp'', JStr timestamp),
           (''image'', JStr img)]"

text \<open>
  The block every alert-creating path repeats: build the alert with
  \<^verbatim>\<open>"id": len(alerts) + 1\<close>, \<^verbatim>\<open>alerts.append(alert)\<close>, \<^verbatim>\<open>save_alerts_to_file()\<close>. An
  exception leaves the state as it was.
\<close>

definition add_alert ::
  "(json \<Rightarrow> string) \<Rightarrow> json \<Rightarrow> string \<Rightarrow> string \<Rightarrow> string \<Rightarrow> string \<Rightarrow> state \<Rightarrow> (error + unit) \<times> state" where
  "add_alert dumps device_id alert_type message timestamp img st =
     (case py_len (alerts st) of
        Inl e \<Rightarrow> (Inl e, st)
      | Inr n \<Rightarrow>
          (case py_append (alerts st)
                  (alert_dict (int n + 1) device_id alert_type message timestamp img) of
             Inl e \<Rightarrow> (Inl e, st)
           | Inr as \<Rightarrow> (Inr (), save_alerts_to_file dumps (st\<lparr>alerts := as\<rparr>))))"

section \<open>Power simulator\<close>

definition scenarios :: "(bool \<times> bool) list" where
  "scenarios =
     [(True, True),
      (True, True),
      (True, True),
      (True, True),
      (True, True),
      (True, True),
      (True, True)]"

text \<open>
  \<^verbatim>\<open>random.choice(seq)\<close> returns \<^verbatim>\<open>seq[i]\<close> for a drawn index \<^verbatim>\<open>i\<close> below \<^verbatim>\<open>len(seq)\<close>; the
  draw is the parameter \<open>r\<close>, reduced to the index range.
\<close>

definition random_choice :: "nat \<Rightarrow> 'a list \<Rightarrow> 'a" where
  "random_choice r xs = xs ! (r mod length xs)"

definition simulate_power_change ::
  "(json \<Rightarrow> string) \<Rightarrow> nat \<Rightarrow> datetime \<Rightarrow> datetime \<Rightarrow> request \<Rightarrow> state \<Rightarrow> (error + response) \<times> state" where
  "simulate_power_change dumps r now1 now2 req st =
     (case json_body req of
        None \<Rightarrow> (Inl BadRequest, st)
      | Some j \<Rightarrow>
          (case py_get j ''device_id'' of
             Inl e \<Rightarrow> (Inl e, st)
           | Inr device_id \<Rightarrow>
               (case registered (power_status st) device_id of
                  Inl e \<Rightarrow> (Inl e, st)
                | Inr None \<Rightarrow> (Inr not_found, st)
                | Inr (Some d) \<Rightarrow>
                    (let scenario = random_choice r scenarios;
                         entry = \<lparr>main = JBool (fst scenario), backup = JBool (snd scenario),
                                  last_update = now1\<rparr>;
                         st1 = st\<lparr>power_status := (power_status st)(d \<mapsto> entry)\<rparr>;
                         ok = Inr \<lparr>status = 200, body = PowerJson entry\<rparr>
                     in if \<not> fst scenario \<and> snd scenario then
                          (case add_alert dumps device_id ''Power Alert''
                                  ''Main supply failed - Running on BACKUP power''
                                  (strftime_stamp now2) ''placeholder.jpg'' st1 of
                             (Inl e, st2) \<Rightarrow> (Inl e, st2)
                           | (Inr u, st2) \<Rightarrow> (ok, st2))
                        else if \<not> fst scenario \<and> \<not> snd scenario then
                          (case add_alert dumps device_id ''Critical Power Alert''
                                  ''CRITICAL: No Power Available''
                                  (strftime_stamp now2) ''placeholder.jpg'' st1 of
                             (Inl e, st2) \<Rightarrow> (Inl e, st2)
                           | (Inr u, st2) \<Rightarrow> (ok, st2))
                        else (ok, st1)))))"

section \<open>Ingestion endpoint\<close>

text \<open>Lines 201 to 210 of \<^verbatim>\<open>receive_from_esp32\<close>: the alert type of a message.\<close>

definition alert_type_of :: "string \<Rightarrow> string" where
  "alert_type_of message =
     (if str_in ''Access status changed'' message then ''Access Status Change''
      else if str_in ''Vibration detected'' message then ''Vibration Alert''
      else if str_in ''ALERT:'' message \<and> str_in ''Access Denied'' message then ''Critical Alert''
      else if str_in ''Door opened'' message then ''Door Alert''
      else ''General Alert'')"

text \<open>\<^verbatim>\<open>d.get(k, default)\<close> on the query parameters and the form fields.\<close>

definition get_or :: "(string \<rightharpoonup> string) \<Rightarrow> string \<Rightarrow> string \<Rightarrow> string" where
  "get_or d k dflt = (case d k of None \<Rightarrow> dflt | Some v \<Rightarrow> v)"

text \<open>Opening a file for appending creates it when it is missing.\<close>

definition append_text :: "string option \<Rightarrow> string \<Rightarrow> string option" where
  "append_text f line = (case f of None \<Rightarrow> Some line | Some txt \<Rightarrow> Some (txt @ line))"

text \<open>
  The two calls of \<^verbatim>\<open>datetime.now()\<close> of the image path are the readings \<open>now1\<close> (file
  name) and \<open>now2\<close> (timestamp of the alert); the message path reads the clock once, \<open>now1\<close>.
  The page rendered on GET is not modelled beyond its template.
\<close>

definition receive_from_esp32 ::
  "(json \<Rightarrow> string) \<Rightarrow> datetime \<Rightarrow> datetime \<Rightarrow> request \<Rightarrow> state \<Rightarrow> (error + response) \<times> state" where
  "receive_from_esp32 dumps now1 now2 req st =
     (if req_method req = ''POST'' then
        if content_type req = Some ''image/jpeg'' then
          (let img_bytes = data req;
               fname = strftime_fname now1 @ ''.jpg'';
               st1 = st\<lparr>images := (images st)(fname \<mapsto> img_bytes)\<rparr>;
               device_id = get_or (args req) ''device_id'' ''UNKNOWN''
           in case add_alert dumps (JStr device_id) ''Image Captured''
                     ''Photo captured by device'' (strftime_stamp now2) fname st1 of
                (Inl e, st2) \<Rightarrow> (Inl e, st2)
              | (Inr u, st2) \<Rightarrow> (Inr \<lparr>status = 200, body = Text ''Image received''\<rparr>, st2))
        else if content_type req = Some ''application/x-www-form-urlencoded'' then
          (let message = get_or (form req) ''message'' [];
               device_id = get_or (args req) ''device_id'' ''UNKNOWN'';
               timestamp = strftime_stamp now1;
               alert_type = alert_type_of message
           in case add_alert dumps (JStr device_id) alert_type message timestamp
                     ''placeholder.jpg'' st of
                (Inl e, st1) \<Rightarrow> (Inl e, st1)
              | (Inr u, st1) \<Rightarrow>
                  (Inr \<lparr>status = 200, body = Text ''Message received''\<rparr>,
                   st1\<lparr>msg_file := append_text (msg_file st1)
                       (timestamp @ '' | '' @ device_id @ '' | '' @ message @ [CHR 0x0A])\<rparr>))
        else (Inr \<lparr>status = 400, body = Text ''Unsupported Content-Type''\<rparr>, st)
      else (Inr \<lparr>status = 200, body = Template ''index.html''\<rparr>, st))"

section \<open>Sequences of requests\<close>

text \<open>
  One request served to completion: the handler called, with the clock readings and the
  random draw it consumes. A request that ends in an exception leaves the state the handler
  had reached; the server goes on with the next request.
\<close>

datatype event =
    ReceiveFromEsp32 datetime datetime request
  | UpdatePowerStatus datetime request
  | SimulatePowerChange nat datetime datetime request

fun handle :: "(json \<Rightarrow> string) \<Rightarrow> event \<Rightarrow> state \<Rightarrow> (error + response) \<times> state" where
  "handle dumps (ReceiveFromEsp32 now1 now2 req) st = receive_from_esp32 dumps now1 now2 req st"
| "handle dumps (UpdatePowerStatus now req) st = update_power_status now req st"
| "handle dumps (SimulatePowerChange r now1 now2 req) st = simulate_power_change dumps r now1 now2 req st"

fun run :: "(json \<Rightarrow> string) \<Rightarrow> event list \<Rightarrow> state \<Rightarrow> state" where
  "run dumps [] st = st"
| "run dumps (ev # evs) st = run dumps evs (snd (handle dumps ev st))"

text \<open>
  The submissions that create an alert: a POST of an image or of a form message to the
  ingestion endpoint. A power-status update has no alert path, and a simulator run appends
  only after drawing a scenario with the main supply off.
\<close>

fun alert_creating :: "event \<Rightarrow> bool" where
  "alert_creating (ReceiveFromEsp32 now1 now2 req) =
     (req_method req = ''POST'' \<and>
      (content_type req = Some ''image/jpeg'' \<or>
       content_type req = Some ''application/x-www-form-urlencoded''))"
| "alert_creating (UpdatePowerStatus now req) = False"
| "alert_creating (SimulatePowerChange r now1 now2 req) = (\<not> fst (random_choice r scenarios))"

text \<open>The \<^verbatim>\<open>"id"\<close> entries of a list of alerts, in store order.\<close>

definition alert_ids :: "json list \<Rightarrow> json option list" where
  "alert_ids as = map (\<lambda>a. py_item a ''id'') as"

section \<open>The classifier as the specification words it\<close>

text \<open>
  The specification gives the message classifier as an ordered table of rules, each a set
  of substrings that must all occur and a label; the first rule that matches gives the
  label, and the default is \<^verbatim>\<open>General Alert\<close>. These two definitions follow that wording;
  they are compared with \<open>alert_type_of\<close>, which follows the code.
\<close>

definition spec_rules :: "(string list \<times> string) list" where
  "spec_rules =
     [([''Access status changed''], ''Access Status Change''),
      ([''Vibration detected''], ''Vibration Alert''),
      ([''ALERT:'', ''Access Denied''], ''Critical Alert''),
      ([''Door opened''], ''Door Alert'')]"

definition spec_first_match :: "string \<Rightarrow> string" where
  "spec_first_match m =
     (case find (\<lambda>rule. list_all (\<lambda>p. str_in p m) (fst rule)) spec_rules of
        None \<Rightarrow> ''General Alert''
      | Some rule \<Rightarrow> snd rule)"

section \<open>Example inputs\<close>

definition clock0 :: datetime where
  "clock0 = \<lparr>year = 2024, month = 5, day = 17, hour = 9, minute = 30, second = 0\<rparr>"

definition clock1 :: datetime where
  "clock1 = \<lparr>year = 2024, month = 5, day = 17, hour = 9, minute = 31, second = 12\<rparr>"

text \<open>A server started in an empty directory.\<close>

definition fresh :: state where
  "fresh = module_globals clock0 None None Map.empty"

definition post_json :: "json \<Rightarrow> request" where
  "post_json j =
     \<lparr>req_method = ''POST'', content_type = Some ''application/json'', data = [],
      args = Map.empty, form = Map.empty, json_body = Some j\<rparr>"

definition post_image :: request where
  "post_image =
     \<lparr>req_method = ''POST'', content_type = Some ''image/jpeg'', data = ''JFIF'',
      args = [''device_id'' \<mapsto> ''DEV001''], form = Map.empty, json_body = None\<rparr>"

definition post_form :: "string \<Rightarrow> request" where
  "post_form message =
     \<lparr>req_method = ''POST'', content_type = Some ''application/x-www-form-urlencoded'', data = [],
      args = [''device_id'' \<mapsto> ''DEV001''], form = [''message'' \<mapsto> message],
      json_body = None\<rparr>"

definition post_text :: request where
  "post_text =
     \<lparr>req_method = ''POST'', content_type = Some ''text/plain'', data = ''hello'',
      args = Map.empty, form = Map.empty, json_body = None\<rparr>"

text \<open>A history of one alert, a text for it, and a codec that knows this history and the empty one.\<close>

definition history1 :: json where
  "history1 =
     JArr [alert_dict 1 (JStr ''DEV001'') ''Door Alert'' ''Door opened at front gate''
             ''2024-05-17 09:31:12'' ''placeholder.jpg'']"

definition text1 :: string where
  "text1 = ''[{id: 1, device_id: DEV001, alert_type: Door Alert}]''"

definition dumps0 :: "json \<Rightarrow> string" where
  "dumps0 j = (if j = JArr [] then ''[]'' else if j = history1 then text1 else ''null'')"

definition loads0 :: "string \<Rightarrow> json option" where
  "loads0 txt =
     (if txt = ''[]'' then Some (JArr [])
      else if txt = text1 then Some history1
      else None)"

section \<open>Auxiliary facts\<close>

lemma str_in_sublist: "str_in sub s \<longleftrightarrow> sublist sub s"
  by (induction s) (auto simp: sublist_Cons_right)

lemma str_in_iff: "str_in sub s \<longleftrightarrow> (\<exists>p q. s = p @ sub @ q)"
  by (simp add: str_in_sublist sublist_def)

lemma str_in_part: "str_in (a @ b @ c) s \<Longrightarrow> str_in b s"
  unfolding str_in_iff by (metis append.assoc)

lemma alert_access_denied:
  assumes "str_in ''ALERT: Access Denied'' m"
  shows "str_in ''ALERT:'' m" and "str_in ''Access Denied'' m"
proof -
  have "str_in ([] @ ''ALERT:'' @ '' Access Denied'') m" using assms by simp
  then show "str_in ''ALERT:'' m" by (rule str_in_part)
  have "str_in (''ALERT: '' @ ''Access Denied'' @ []) m" using assms by simp
  then show "str_in ''Access Denied'' m" by (rule str_in_part)
qed

lemma random_choice_scenarios: "random_choice r scenarios = (True, True)"
proof -
  have "r mod 7 < 7" by simp
  then have "r mod 7 \<in> {0, 1, 2, 3, 4, 5, 6}" by auto
  then show ?thesis
    by (auto simp: random_choice_def scenarios_def)
qed

lemma simulate_alerts:
  "alerts (snd (simulate_power_change dumps r now1 now2 req st)) = alerts st"
  by (simp add: simulate_power_change_def random_choice_scenarios Let_def
      split: option.splits sum.splits)

lemma simulate_alerts_file:
  "alerts_file (snd (simulate_power_change dumps r now1 now2 req st)) = alerts_file st"
  by (simp add: simulate_power_change_def random_choice_scenarios Let_def
      split: option.splits sum.splits)

lemma update_alerts: "alerts (snd (update_power_status now req st)) = alerts st"
  by (auto simp: update_power_status_def split: option.splits sum.splits prod.splits)

lemma update_alerts_file:
  "alerts_file (snd (update_power_status now req st)) = alerts_file st"
  by (auto simp: update_power_status_def split: option.splits sum.splits prod.splits)

lemma add_alert_list:
  "alerts st = JArr as \<Longrightarrow>
   add_alert dumps dev ty msg ts img st =
     (Inr (), save_alerts_to_file dumps
        (st\<lparr>alerts := JArr (as @ [alert_dict (int (length as) + 1) dev ty msg ts img])\<rparr>))"
  by (simp add: add_alert_def)

lemma alert_dict_id: "py_item (alert_dict n dev ty msg ts img) ''id'' = Some (JInt n)"
  by (simp add: alert_dict_def)

lemma receive_alerts_other:
  assumes "\<not> alert_creating (ReceiveFromEsp32 now1 now2 req)"
  shows "snd (receive_from_esp32 dumps now1 now2 req st) = st"
  using assms by (auto simp: receive_from_esp32_def)

lemma receive_alerts_creating:
  assumes "alerts st = JArr as" and "alert_creating (ReceiveFromEsp32 now1 now2 req)"
  shows "\<exists>a. py_item a ''id'' = Some (JInt (int (length as) + 1)) \<and>
     alerts (snd (receive_from_esp32 dumps now1 now2 req st)) = JArr (as @ [a])"
proof -
  from assms(2) have post: "req_method req = ''POST''" by simp
  show ?thesis
  proof (cases "content_type req = Some ''image/jpeg''")
    case True
    let ?st1 = "st\<lparr>images := (images st)(strftime_fname now1 @ ''.jpg'' \<mapsto> data req)\<rparr>"
    have "alerts ?st1 = JArr as" using assms(1) by simp
    from add_alert_list [OF this] post True show ?thesis
      by (simp add: receive_from_esp32_def Let_def save_alerts_to_file_def alert_dict_id)
  next
    case False
    with assms(2) have frm: "content_type req = Some ''application/x-www-form-urlencoded''"
      by simp
    from add_alert_list [OF assms(1)] post False frm show ?thesis
      by (simp add: receive_from_esp32_def Let_def save_alerts_to_file_def alert_dict_id)
  qed
qed

lemma handle_alerts_other:
  assumes "\<not> alert_creating ev"
  shows "alerts (snd (handle dumps ev st)) = alerts st"
proof (cases ev)
  case (ReceiveFromEsp32 now1 now2 req)
  with assms receive_alerts_other show ?thesis by simp
next
  case (UpdatePowerStatus now req)
  then show ?thesis by (simp add: update_alerts)
next
  case (SimulatePowerChange r now1 now2 req)
  then show ?thesis by (simp add: simulate_alerts)
qed

lemma handle_alerts_creating:
  assumes "alerts st = JArr as" and "alert_creating ev"
  shows "\<exists>a. py_item a ''id'' = Some (JInt (int (length as) + 1)) \<and>
     alerts (snd (handle dumps ev st)) = JArr (as @ [a])"
proof (cases ev)
  case (ReceiveFromEsp32 now1 now2 req)
  with receive_alerts_creating [OF assms(1)] assms(2) show ?thesis by simp
next
  case (UpdatePowerStatus now req)
  with assms(2) show ?thesis by simp
next
  case (SimulatePowerChange r now1 now2 req)
  with assms(2) show ?thesis by (simp add: random_choice_scenarios)
qed

text \<open>
  From any list of alerts: a run appends one alert for each alert-creating submission, and
  the alert at position \<open>i\<close> of the appended part has the id \<open>length as + i + 1\<close>.
\<close>

lemma run_alerts:
  "alerts st = JArr as \<Longrightarrow>
   \<exists>bs. alerts (run dumps evs st) = JArr (as @ bs) \<and>
        length bs = length (filter alert_creating evs) \<and>
        (\<forall>i<length bs. py_item (bs ! i) ''id'' = Some (JInt (int (length as + i) + 1)))"
proof (induction evs arbitrary: st as)
  case Nil
  then show ?case by simp
next
  case (Cons ev evs)
  show ?case
  proof (cases "alert_creating ev")
    case False
    with handle_alerts_other [of ev dumps st] Cons.prems
    have "alerts (snd (handle dumps ev st)) = JArr as" by simp
    from Cons.IH [OF this] False show ?thesis by simp
  next
    case True
    from handle_alerts_creating [OF Cons.prems True, of dumps] obtain a where
      a: "py_item a ''id'' = Some (JInt (int (length as) + 1))"
      and h: "alerts (snd (handle dumps ev st)) = JArr (as @ [a])"
      by blast
    from Cons.IH [OF h] obtain bs where
      r: "alerts (run dumps evs (snd (handle dumps ev st))) = JArr ((as @ [a]) @ bs)"
      and l: "length bs = length (filter alert_creating evs)"
      and i: "\<forall>i<length bs. py_item (bs ! i) ''id'' =
                Some (JInt (int (length (as @ [a]) + i) + 1))"
      by blast
    have ids: "py_item ((a # bs) ! k) ''id'' = Some (JInt (int (length as + k) + 1))"
      if "k < length (a # bs)" for k
    proof (cases k)
      case 0
      with a show ?thesis by simp
    next
      case (Suc j)
      with that have "j < length bs" by simp
      with i have "py_item (bs ! j) ''id'' = Some (JInt (int (length (as @ [a]) + j) + 1))"
        by blast
      with Suc show ?thesis by simp
    qed
    from r l ids True show ?thesis
      by (intro exI [of _ "a # bs"]) simp
  qed
qed

text \<open>
  Every append is followed by a rewrite of the alert file from the whole list, so a server
  restarted on that file starts from the list the handler left in memory, for every list
  the codec reads back from its own text.
\<close>

lemma receive_persists:
  assumes "alerts st = JArr as" and "alert_creating (ReceiveFromEsp32 now1 now2 req)"
  shows "alerts_file (snd (receive_from_esp32 dumps now1 now2 req st)) =
     Some (dumps (alerts (snd (receive_from_esp32 dumps now1 now2 req st))))"
proof -
  from assms(2) have post: "req_method req = ''POST''" by simp
  show ?thesis
  proof (cases "content_type req = Some ''image/jpeg''")
    case True
    let ?st1 = "st\<lparr>images := (images st)(strftime_fname now1 @ ''.jpg'' \<mapsto> data req)\<rparr>"
    have "alerts ?st1 = JArr as" using assms(1) by simp
    from add_alert_list [OF this] post True show ?thesis
      by (simp add: receive_from_esp32_def Let_def save_alerts_to_file_def)
  next
    case False
    with assms(2) have frm: "content_type req = Some ''application/x-www-form-urlencoded''"
      by simp
    from add_alert_list [OF assms(1)] post False frm show ?thesis
      by (simp add: receive_from_esp32_def Let_def save_alerts_to_file_def)
  qed
qed

lemma handle_persists:
  assumes "alerts st = JArr as" and "alert_creating ev"
  shows "alerts_file (snd (handle dumps ev st)) = Some (dumps (alerts (snd (handle dumps ev st))))"
proof (cases ev)
  case (ReceiveFromEsp32 now1 now2 req)
  with receive_persists [OF assms(1)] assms(2) show ?thesis by simp
next
  case (UpdatePowerStatus now req)
  with assms(2) show ?thesis by simp
next
  case (SimulatePowerChange r now1 now2 req)
  with assms(2) show ?thesis by (simp add: random_choice_scenarios)
qed

lemma restart_after_append:
  assumes "alerts st = JArr as" and "alert_creating ev"
    and "loads (dumps (alerts (snd (handle dumps ev st)))) = Some (alerts (snd (handle dumps ev st)))"
  shows "alerts (startup loads now (alerts_file (snd (handle dumps ev st))) mfile imgs) =
     alerts (snd (handle dumps ev st))"
  using handle_persists [OF assms(1,2), of dumps] assms(3)
  by (simp add: startup_def load_alerts_from_file_def module_globals_def)

section \<open>The claims\<close>

text \<open>
  Claim C1. Served one after the other from an empty alert store, any sequence of requests
  leaves a store with exactly one alert for each alert-creating submission of the sequence
  (image POST, form-message POST, simulator run that emits an alert), and the ids of the
  stored alerts are 1, 2, ..., N in store order, each once. The id of an alert is
  \<^verbatim>\<open>len(alerts) + 1\<close> at the moment of its append (\<open>add_alert_list\<close>, \<open>run_alerts\<close>).
\<close>

theorem alert_ids_dense:
  assumes "alerts st = JArr []"
  shows "\<exists>as. alerts (run dumps evs st) = JArr as \<and>
           length as = length (filter alert_creating evs) \<and>
           alert_ids as = map (\<lambda>i. Some (JInt (int i))) [1..<Suc (length as)] \<and>
           distinct (alert_ids as)"
proof -
  from run_alerts [OF assms, of dumps evs] obtain bs where
    r: "alerts (run dumps evs st) = JArr bs"
    and l: "length bs = length (filter alert_creating evs)"
    and i: "\<forall>i<length bs. py_item (bs ! i) ''id'' = Some (JInt (int i + 1))"
    by auto
  have ids: "alert_ids bs = map (\<lambda>i. Some (JInt (int i))) [1..<Suc (length bs)]"
  proof (rule nth_equalityI)
    show "length (alert_ids bs) = length (map (\<lambda>i. Some (JInt (int i))) [1..<Suc (length bs)])"
      by (simp add: alert_ids_def del: upt_Suc)
  next
    fix k assume "k < length (alert_ids bs)"
    then have k: "k < length bs" by (simp add: alert_ids_def)
    then have "map (\<lambda>i. Some (JInt (int i))) [1..<Suc (length bs)] ! k = Some (JInt (int (1 + k)))"
      by (subst nth_map_upt) simp_all
    with i k show "alert_ids bs ! k = map (\<lambda>i. Some (JInt (int i))) [1..<Suc (length bs)] ! k"
      by (simp add: alert_ids_def add.commute del: upt_Suc)
  qed
  have "inj_on (\<lambda>i. Some (JInt (int i))) (set [1..<Suc (length bs)])"
    by (auto simp: inj_on_def)
  then have "distinct (map (\<lambda>i. Some (JInt (int i))) [1..<Suc (length bs)])"
    by (simp add: distinct_map del: upt_Suc)
  with ids r l show ?thesis by auto
qed

theorem alert_ids_dense_witness:
  "alerts fresh = JArr [] \<and>
   (\<exists>as. alerts (run dumps0
             [ReceiveFromEsp32 clock0 clock0 post_image,
              UpdatePowerStatus clock0 (post_json (JObj [(''device_id'', JStr ''DEV001'')])),
              ReceiveFromEsp32 clock1 clock1 (post_form ''Door opened at front gate''),
              SimulatePowerChange 3 clock1 clock1 (post_json (JObj [(''device_id'', JStr ''DEV001'')]))]
             fresh) = JArr as \<and>
        length as = 2 \<and> alert_ids as = [Some (JInt 1), Some (JInt 2)])"
proof -
  have h: "alerts fresh = JArr []" by (simp add: fresh_def module_globals_def)
  have n: "length (filter alert_creating
             [ReceiveFromEsp32 clock0 clock0 post_image,
              UpdatePowerStatus clock0 (post_json (JObj [(''device_id'', JStr ''DEV001'')])),
              ReceiveFromEsp32 clock1 clock1 (post_form ''Door opened at front gate''),
              SimulatePowerChange 3 clock1 clock1 (post_json (JObj [(''device_id'', JStr ''DEV001'')]))]) = 2"
    by (simp add: post_image_def post_form_def random_choice_scenarios)
  have u: "map (\<lambda>i. Some (JInt (int i))) [1..<Suc 2] = [Some (JInt 1), Some (JInt 2)]"
    by (simp add: upt_rec)
  from alert_ids_dense [OF h, of dumps0
             "[ReceiveFromEsp32 clock0 clock0 post_image,
              UpdatePowerStatus clock0 (post_json (JObj [(''device_id'', JStr ''DEV001'')])),
              ReceiveFromEsp32 clock1 clock1 (post_form ''Door opened at front gate''),
              SimulatePowerChange 3 clock1 clock1 (post_json (JObj [(''device_id'', JStr ''DEV001'')]))]"]
  obtain as where "alerts (run dumps0
             [ReceiveFromEsp32 clock0 clock0 post_image,
              UpdatePowerStatus clock0 (post_json (JObj [(''device_id'', JStr ''DEV001'')])),
              ReceiveFromEsp32 clock1 clock1 (post_form ''Door opened at front gate''),
              SimulatePowerChange 3 clock1 clock1 (post_json (JObj [(''device_id'', JStr ''DEV001'')]))]
             fresh) = JArr as" and "length as = 2"
    and "alert_ids as = map (\<lambda>i. Some (JInt (int i))) [1..<Suc (length as)]"
    unfolding n by blast
  with u h show ?thesis by auto
qed


text \<open>
  Claim C2, as amended. The classifier is a total function of the message alone, and it is
  the first-match evaluation of the ordered rule table of the specification, with
  \<^verbatim>\<open>General Alert\<close> as the default; its result is always one of the five labels. A message that contains both \<^verbatim>\<open>Vibration detected\<close>
  and \<^verbatim>\<open>Door opened\<close> and does not contain \<^verbatim>\<open>Access status changed\<close> is a
  \<^verbatim>\<open>Vibration Alert\<close>. Without the last condition the first rule wins, as the
  counterexample shows.
\<close>

theorem alert_type_rule_order:
  "alert_type_of m = spec_first_match m \<and>
   alert_type_of m \<in>
     {''Access Status Change'', ''Vibration Alert'', ''Critical Alert'', ''Door Alert'',
      ''General Alert''} \<and>
   (str_in ''Vibration detected'' m \<and> str_in ''Door opened'' m \<and>
    \<not> str_in ''Access status changed'' m \<longrightarrow> alert_type_of m = ''Vibration Alert'')"
  by (simp add: alert_type_of_def spec_first_match_def spec_rules_def)

theorem alert_type_rule_order_witness:
  "str_in ''Vibration detected'' ''Vibration detected, Door opened'' \<and>
   str_in ''Door opened'' ''Vibration detected, Door opened'' \<and>
   \<not> str_in ''Access status changed'' ''Vibration detected, Door opened'' \<and>
   alert_type_of ''Vibration detected, Door opened'' = ''Vibration Alert''"
proof -
  have h: "str_in ''Vibration detected'' ''Vibration detected, Door opened'' \<and>
   str_in ''Door opened'' ''Vibration detected, Door opened'' \<and>
   \<not> str_in ''Access status changed'' ''Vibration detected, Door opened''"
    by simp
  with alert_type_rule_order [of "''Vibration detected, Door opened''"] show ?thesis by blast
qed

theorem vibration_door_counterexample:
  "str_in ''Vibration detected'' ''Access status changed. Vibration detected. Door opened'' \<and>
   str_in ''Door opened'' ''Access status changed. Vibration detected. Door opened'' \<and>
   alert_type_of ''Access status changed. Vibration detected. Door opened'' \<noteq> ''Vibration Alert''"
  by (simp add: alert_type_of_def)


text \<open>
  Claim C3, as amended. A message that contains \<^verbatim>\<open>ALERT: Access Denied\<close> and neither
  \<^verbatim>\<open>Access status changed\<close> nor \<^verbatim>\<open>Vibration detected\<close> is a \<^verbatim>\<open>Critical Alert\<close>. A
  message that contains \<^verbatim>\<open>ALERT:\<close> and none of \<^verbatim>\<open>Access Denied\<close>,
  \<^verbatim>\<open>Access status changed\<close>, \<^verbatim>\<open>Vibration detected\<close> and \<^verbatim>\<open>Door opened\<close> is a
  \<^verbatim>\<open>General Alert\<close>. Without the conditions on the earlier rules the claim fails, as the
  counterexample shows.
\<close>

theorem alert_type_access_denied:
  "(str_in ''ALERT: Access Denied'' m \<and> \<not> str_in ''Access status changed'' m \<and>
    \<not> str_in ''Vibration detected'' m \<longrightarrow> alert_type_of m = ''Critical Alert'') \<and>
   (str_in ''ALERT:'' m \<and> \<not> str_in ''Access Denied'' m \<and>
    \<not> str_in ''Access status changed'' m \<and> \<not> str_in ''Vibration detected'' m \<and>
    \<not> str_in ''Door opened'' m \<longrightarrow> alert_type_of m = ''General Alert'')"
  using alert_access_denied [of m] by (simp add: alert_type_of_def)

theorem alert_type_access_denied_witness:
  "alert_type_of ''ALERT: Access Denied at gate 4'' = ''Critical Alert'' \<and>
   alert_type_of ''ALERT: battery low'' = ''General Alert''"
proof -
  have h1: "str_in ''ALERT: Access Denied'' ''ALERT: Access Denied at gate 4'' \<and>
    \<not> str_in ''Access status changed'' ''ALERT: Access Denied at gate 4'' \<and>
    \<not> str_in ''Vibration detected'' ''ALERT: Access Denied at gate 4''"
    by simp
  have h2: "str_in ''ALERT:'' ''ALERT: battery low'' \<and>
    \<not> str_in ''Access Denied'' ''ALERT: battery low'' \<and>
    \<not> str_in ''Access status changed'' ''ALERT: battery low'' \<and>
    \<not> str_in ''Vibration detected'' ''ALERT: battery low'' \<and>
    \<not> str_in ''Door opened'' ''ALERT: battery low''"
    by simp
  from h1 h2 alert_type_access_denied [of "''ALERT: Access Denied at gate 4''"]
    alert_type_access_denied [of "''ALERT: battery low''"]
  show ?thesis by blast
qed

theorem access_denied_counterexample:
  "str_in ''ALERT: Access Denied'' ''ALERT: Access Denied. Vibration detected'' \<and>
   alert_type_of ''ALERT: Access Denied. Vibration detected'' \<noteq> ''Critical Alert''"
  by (simp add: alert_type_of_def)


text \<open>
  Claim C4. The power state is a function of the pair (main, backup) alone: the four
  boolean pairs map to the four (label, severity) pairs of the table, no other pair is ever
  produced, and the response of \<^verbatim>\<open>get_power_status\<close> for a registered device carries
  exactly this pair in its fields \<^verbatim>\<open>state\<close> and \<^verbatim>\<open>state_class\<close>.
\<close>

theorem power_state_table:
  "power_state (JBool True) (JBool True) = (''Normal - Both supplies active'', ''success'') \<and>
   power_state (JBool False) (JBool True) = (''Running on BACKUP power'', ''warning'') \<and>
   power_state (JBool True) (JBool False) = (''Main supply active, backup offline'', ''info'') \<and>
   power_state (JBool False) (JBool False) = (''No Power Available - CRITICAL'', ''danger'') \<and>
   power_state m b \<in>
     {(''Normal - Both supplies active'', ''success''),
      (''Running on BACKUP power'', ''warning''),
      (''Main supply active, backup offline'', ''info''),
      (''No Power Available - CRITICAL'', ''danger'')} \<and>
   get_power_status d
       (st\<lparr>power_status := (power_status st)(d \<mapsto> \<lparr>main = m, backup = b, last_update = t\<rparr>)\<rparr>) =
     jsonify (JObj
       [(''device_id'', JStr d),
        (''main_supply'', JStr (if truthy m then ''ON'' else ''OFF'')),
        (''backup_supply'', JStr (if truthy b then ''ON'' else ''OFF'')),
        (''state'', JStr (fst (power_state m b))),
        (''state_class'', JStr (snd (power_state m b))),
        (''last_update'', JStr (strftime_stamp t))]) 200"
  by (simp add: power_state_def get_power_status_def)


text \<open>
  Claim C5. Whatever the random draw, the simulator's scenario is (main = True,
  backup = True). So a simulator call for a registered device succeeds and leaves that
  device with both supplies active, and no simulator call, whatever the request, changes
  the alert list or the alert file: the two alert-creating branches never run.
\<close>

theorem simulate_always_both_active:
  "random_choice r scenarios = (True, True) \<and>
   alerts (snd (simulate_power_change dumps r now1 now2 req st)) = alerts st \<and>
   alerts_file (snd (simulate_power_change dumps r now1 now2 req st)) = alerts_file st \<and>
   (\<forall>kvs d e. json_body req = Some (JObj kvs) \<and> map_of kvs ''device_id'' = Some (JStr d) \<and>
       power_status st d = Some e \<longrightarrow>
      simulate_power_change dumps r now1 now2 req st =
        (Inr \<lparr>status = 200,
              body = PowerJson \<lparr>main = JBool True, backup = JBool True, last_update = now1\<rparr>\<rparr>,
         st\<lparr>power_status := (power_status st)
              (d \<mapsto> \<lparr>main = JBool True, backup = JBool True, last_update = now1\<rparr>)\<rparr>))"
proof -
  have "simulate_power_change dumps r now1 now2 req st =
        (Inr \<lparr>status = 200,
              body = PowerJson \<lparr>main = JBool True, backup = JBool True, last_update = now1\<rparr>\<rparr>,
         st\<lparr>power_status := (power_status st)
              (d \<mapsto> \<lparr>main = JBool True, backup = JBool True, last_update = now1\<rparr>)\<rparr>)"
    if "json_body req = Some (JObj kvs)" and "map_of kvs ''device_id'' = Some (JStr d)"
      and "power_status st d = Some e" for kvs d e
    using that by (simp add: simulate_power_change_def random_choice_scenarios Let_def)
  then show ?thesis
    by (simp add: random_choice_scenarios simulate_alerts simulate_alerts_file)
qed

theorem simulate_always_both_active_witness:
  "json_body (post_json (JObj [(''device_id'', JStr ''DEV001'')])) =
     Some (JObj [(''device_id'', JStr ''DEV001'')]) \<and>
   map_of [(''device_id'', JStr ''DEV001'')] ''device_id'' = Some (JStr ''DEV001'') \<and>
   power_status fresh ''DEV001'' =
     Some \<lparr>main = JBool True, backup = JBool True, last_update = clock0\<rparr> \<and>
   simulate_power_change dumps0 5 clock1 clock1
       (post_json (JObj [(''device_id'', JStr ''DEV001'')])) fresh =
     (Inr \<lparr>status = 200,
           body = PowerJson \<lparr>main = JBool True, backup = JBool True, last_update = clock1\<rparr>\<rparr>,
      fresh\<lparr>power_status := (power_status fresh)
           (''DEV001'' \<mapsto> \<lparr>main = JBool True, backup = JBool True, last_update = clock1\<rparr>)\<rparr>)"
proof -
  have h: "json_body (post_json (JObj [(''device_id'', JStr ''DEV001'')])) =
       Some (JObj [(''device_id'', JStr ''DEV001'')]) \<and>
     map_of [(''device_id'', JStr ''DEV001'')] ''device_id'' = Some (JStr ''DEV001'') \<and>
     power_status fresh ''DEV001'' =
       Some \<lparr>main = JBool True, backup = JBool True, last_update = clock0\<rparr>"
    by (simp add: post_json_def fresh_def module_globals_def)
  with simulate_always_both_active [of 5 dumps0 clock1 clock1
      "post_json (JObj [(''device_id'', JStr ''DEV001'')])" fresh]
  show ?thesis by blast
qed


text \<open>
  Claim C6. A power-status update whose device identifier is not registered answers
  \<^verbatim>\<open>404\<close> (Device not found) and leaves the whole state as it was. For a registered
  identifier it succeeds and replaces the entry of the device, in one step, by the submitted
  main and backup values and the current time. In either case the alert list and the alert
  file are unchanged.
\<close>

theorem update_power_status_outcomes:
  assumes "json_body req = Some (JObj kvs)"
    and "map_of kvs ''device_id'' = Some (JStr d)"
  shows "(power_status st d = None \<longrightarrow>
            update_power_status now req st = (Inr not_found, st)) \<and>
         (power_status st d \<noteq> None \<longrightarrow>
            update_power_status now req st =
              (Inr (jsonify (JObj [(''status'', JStr ''success'')]) 200),
               st\<lparr>power_status := (power_status st)
                    (d \<mapsto> \<lparr>main = (case map_of kvs ''main_supply'' of None \<Rightarrow> JNull | Some v \<Rightarrow> v),
                           backup = (case map_of kvs ''backup_supply'' of None \<Rightarrow> JNull | Some v \<Rightarrow> v),
                           last_update = now\<rparr>)\<rparr>)) \<and>
         status not_found = 404 \<and>
         alerts (snd (update_power_status now req st)) = alerts st \<and>
         alerts_file (snd (update_power_status now req st)) = alerts_file st"
proof -
  have "update_power_status now req st = (Inr not_found, st)" if "power_status st d = None"
    using assms that by (simp add: update_power_status_def)
  moreover have "update_power_status now req st =
              (Inr (jsonify (JObj [(''status'', JStr ''success'')]) 200),
               st\<lparr>power_status := (power_status st)
                    (d \<mapsto> \<lparr>main = (case map_of kvs ''main_supply'' of None \<Rightarrow> JNull | Some v \<Rightarrow> v),
                           backup = (case map_of kvs ''backup_supply'' of None \<Rightarrow> JNull | Some v \<Rightarrow> v),
                           last_update = now\<rparr>)\<rparr>)" if "power_status st d \<noteq> None"
    using assms that by (auto simp: update_power_status_def)
  moreover have "status not_found = 404" by (simp add: not_found_def jsonify_def)
  ultimately show ?thesis by (simp add: update_alerts update_alerts_file)
qed

theorem update_power_status_outcomes_witness:
  "update_power_status clock1
      (post_json (JObj [(''device_id'', JStr ''DEV999''), (''main_supply'', JBool False),
                        (''backup_supply'', JBool True)])) fresh =
     (Inr not_found, fresh) \<and>
   update_power_status clock1
      (post_json (JObj [(''device_id'', JStr ''DEV001''), (''main_supply'', JBool False),
                        (''backup_supply'', JBool True)])) fresh =
     (Inr (jsonify (JObj [(''status'', JStr ''success'')]) 200),
      fresh\<lparr>power_status := (power_status fresh)
         (''DEV001'' \<mapsto> \<lparr>main = JBool False, backup = JBool True, last_update = clock1\<rparr>)\<rparr>)"
proof -
  let ?b9 = "[(''device_id'', JStr ''DEV999''), (''main_supply'', JBool False),
              (''backup_supply'', JBool True)]"
  let ?b1 = "[(''device_id'', JStr ''DEV001''), (''main_supply'', JBool False),
              (''backup_supply'', JBool True)]"
  have j9: "json_body (post_json (JObj ?b9)) = Some (JObj ?b9)" by (simp add: post_json_def)
  have d9: "map_of ?b9 ''device_id'' = Some (JStr ''DEV999'')" by simp
  have p9: "power_status fresh ''DEV999'' = None" by (simp add: fresh_def module_globals_def)
  have j1: "json_body (post_json (JObj ?b1)) = Some (JObj ?b1)" by (simp add: post_json_def)
  have d1: "map_of ?b1 ''device_id'' = Some (JStr ''DEV001'')" by simp
  have p1: "power_status fresh ''DEV001'' \<noteq> None" by (simp add: fresh_def module_globals_def)
  from update_power_status_outcomes [OF j9 d9, of fresh clock1] p9
  have "update_power_status clock1 (post_json (JObj ?b9)) fresh = (Inr not_found, fresh)"
    by blast
  moreover from update_power_status_outcomes [OF j1 d1, of fresh clock1] p1
  have "update_power_status clock1 (post_json (JObj ?b1)) fresh =
     (Inr (jsonify (JObj [(''status'', JStr ''success'')]) 200),
      fresh\<lparr>power_status := (power_status fresh)
         (''DEV001'' \<mapsto> \<lparr>main = JBool False, backup = JBool True, last_update = clock1\<rparr>)\<rparr>)"
    by simp
  ultimately show ?thesis by simp
qed


text \<open>
  Claim C7. At startup the alert history is the empty list when the alert file is missing,
  the empty list when reading the file raises (any parse failure), and the value read when
  the file parses. The loader has no error result: it returns a value in every case.
\<close>

theorem startup_alerts:
  "(afile = None \<longrightarrow> alerts (startup loads now afile mfile imgs) = JArr []) \<and>
   (\<forall>txt. afile = Some txt \<and> loads txt = None \<longrightarrow>
      alerts (startup loads now afile mfile imgs) = JArr []) \<and>
   (\<forall>txt v. afile = Some txt \<and> loads txt = Some v \<longrightarrow>
      alerts (startup loads now afile mfile imgs) = v) \<and>
   fst (load_alerts_from_file loads (module_globals now afile mfile imgs)) =
      alerts (startup loads now afile mfile imgs)"
  by (auto simp: startup_def load_alerts_from_file_def module_globals_def split: option.splits)

theorem startup_alerts_witness:
  "alerts (startup loads0 clock0 None None Map.empty) = JArr [] \<and>
   loads0 ''[{id: 1, '' = None \<and>
   alerts (startup loads0 clock0 (Some ''[{id: 1, '') None Map.empty) = JArr [] \<and>
   loads0 text1 = Some history1 \<and>
   alerts (startup loads0 clock0 (Some text1) None Map.empty) = history1"
proof -
  have h1: "loads0 ''[{id: 1, '' = None" by (simp add: loads0_def text1_def)
  have h2: "loads0 text1 = Some history1" by (simp add: loads0_def text1_def)
  from startup_alerts [of None loads0 clock0 None Map.empty]
  have "alerts (startup loads0 clock0 None None Map.empty) = JArr []" by blast
  moreover from startup_alerts [of "Some ''[{id: 1, ''" loads0 clock0 None Map.empty] h1
  have "alerts (startup loads0 clock0 (Some ''[{id: 1, '') None Map.empty) = JArr []" by blast
  moreover from startup_alerts [of "Some text1" loads0 clock0 None Map.empty] h2
  have "alerts (startup loads0 clock0 (Some text1) None Map.empty) = history1" by blast
  ultimately show ?thesis using h1 h2 by simp
qed





text \<open>
  Claim C9. A POST to the ingestion endpoint whose content type is neither
  \<^verbatim>\<open>image/jpeg\<close> nor \<^verbatim>\<open>application/x-www-form-urlencoded\<close> is answered with status 400,
  and the state after it is the state before it: alert list, power table, alert file,
  message log and image directory.
\<close>

theorem unsupported_content_type:
  assumes "req_method req = ''POST''"
    and "content_type req \<noteq> Some ''image/jpeg''"
    and "content_type req \<noteq> Some ''application/x-www-form-urlencoded''"
  shows "receive_from_esp32 dumps now1 now2 req st =
    (Inr \<lparr>status = 400, body = Text ''Unsupported Content-Type''\<rparr>, st)"
  using assms by (simp add: receive_from_esp32_def)

theorem unsupported_content_type_witness:
  "req_method post_text = ''POST'' \<and>
   content_type post_text \<noteq> Some ''image/jpeg'' \<and>
   content_type post_text \<noteq> Some ''application/x-www-form-urlencoded'' \<and>
   receive_from_esp32 dumps0 clock0 clock1 post_text fresh =
     (Inr \<lparr>status = 400, body = Text ''Unsupported Content-Type''\<rparr>, fresh)"
proof -
  have h1: "req_method post_text = ''POST''" by (simp add: post_text_def)
  have h2: "content_type post_text \<noteq> Some ''image/jpeg''" by (simp add: post_text_def)
  have h3: "content_type post_text \<noteq> Some ''application/x-www-form-urlencoded''"
    by (simp add: post_text_def)
  from unsupported_content_type [OF h1 h2 h3, of dumps0 clock0 clock1 fresh] h1 h2 h3
  show ?thesis by simp
qed


text \<open>
  Claim C10. An accepted power-status update stores the values of \<^verbatim>\<open>main_supply\<close> and
  \<^verbatim>\<open>backup_supply\<close> exactly as the JSON body gives them, whatever their type, and stores
  None for a field the body omits. The example after the theorem stores a string and a
  None: nothing at this boundary makes the stored pair a pair of booleans.
\<close>

theorem update_power_status_verbatim:
  assumes "json_body req = Some (JObj kvs)"
    and "map_of kvs ''device_id'' = Some (JStr d)"
    and "power_status st d = Some e"
  shows "power_status (snd (update_power_status now req st)) d =
           Some \<lparr>main = (case map_of kvs ''main_supply'' of None \<Rightarrow> JNull | Some v \<Rightarrow> v),
                 backup = (case map_of kvs ''backup_supply'' of None \<Rightarrow> JNull | Some v \<Rightarrow> v),
                 last_update = now\<rparr>"
  using assms by (simp add: update_power_status_def)

theorem update_power_status_verbatim_witness:
  "power_status
     (snd (update_power_status clock1
        (post_json (JObj [(''device_id'', JStr ''DEV001''), (''main_supply'', JStr ''maybe'')]))
        fresh)) ''DEV001'' =
   Some \<lparr>main = JStr ''maybe'', backup = JNull, last_update = clock1\<rparr>"
proof -
  let ?b = "[(''device_id'', JStr ''DEV001''), (''main_supply'', JStr ''maybe'')]"
  have j: "json_body (post_json (JObj ?b)) = Some (JObj ?b)" by (simp add: post_json_def)
  have d: "map_of ?b ''device_id'' = Some (JStr ''DEV001'')" by simp
  have p: "power_status fresh ''DEV001'' =
      Some \<lparr>main = JBool True, backup = JBool True, last_update = clock0\<rparr>"
    by (simp add: fresh_def module_globals_def)
  from update_power_status_verbatim [OF j d p, of clock1] show ?thesis by simp
qed

end
